theory Spec2Isabelle
  imports Main "HOL-Library.Word" "HOL-Library.Sublist"
begin

unbundle bit_operations_syntax

section \<open>The build command of img: a shallow embedding of build.go\<close>

text \<open>
  The theory follows \<^verbatim>\<open>src/build.go\<close>: the archive classifier \<^verbatim>\<open>isArchive\<close>, the
  extractor \<^verbatim>\<open>untar\<close>, the two stdin helpers \<^verbatim>\<open>dockerfileFromStdin\<close> and
  \<^verbatim>\<open>contextFromStdin\<close>, and the part of \<^verbatim>\<open>Run\<close> that validates the options and
  builds the frontend attributes (lines 69 to 167). The three goroutines that \<^verbatim>\<open>Run\<close>
  starts afterwards are not modelled.

  build.go calls packages that are not part of the source file. Small library functions
  whose behaviour is fixed by a few lines (\<^verbatim>\<open>strings.SplitN\<close>, \<^verbatim>\<open>strings.Join\<close>,
  \<^verbatim>\<open>filepath.Clean\<close>, \<^verbatim>\<open>filepath.Base\<close>, \<^verbatim>\<open>archive.DetectCompression\<close>, the
  magic check of \<^verbatim>\<open>gzip.NewReader\<close>, the short read of \<^verbatim>\<open>tar.Reader.Next\<close>,
  \<^verbatim>\<open>securejoin.SecureJoin\<close> on a tree without symbolic links, and the file system calls)
  are written out. The decoders themselves (DEFLATE, the tar header format, the image
  reference grammar) and the outcomes of the environment are parameters, collected in
  the record \<open>env\<close>; every theorem holds for each value of them.
\<close>

subsection \<open>Bytes and errors\<close>

type_synonym byte = "8 word"

text \<open>
  A Go \<^verbatim>\<open>error\<close> value. The sentinels of the libraries are constructors;
  \<open>ErrorsNew s\<close> is \<^verbatim>\<open>errors.New(s)\<close>; \<open>Errorf f args e\<close> is \<^verbatim>\<open>fmt.Errorf\<close> with the
  format \<open>f\<close>, its string operands and its error operand (if any), so that the operands
  can be read back without modelling the formatting; \<open>LibError s\<close> is any other error a
  library or the environment reports.
\<close>

datatype error =
    EOF
  | ErrUnexpectedEOF
  | GzipErrHeader
  | ENOENT
  | ENOTDIR
  | EISDIR
  | EEXIST
  | NilDereference
  | ErrorsNew string
  | Errorf string "string list" "error option"
  | LibError string

subsection \<open>Package strings\<close>

text \<open>
  \<^verbatim>\<open>strings.Split(s, sep)\<close> for a separator of one byte: the fields between the
  separators, \<open>['''']\<close> for the empty string.
\<close>

fun Split :: "char \<Rightarrow> string \<Rightarrow> string list" where
  "Split sep [] = [[]]"
| "Split sep (c # cs) =
     (if c = sep then [] # Split sep cs
      else (case Split sep cs of
              [] \<Rightarrow> [[c]]
            | f # fs \<Rightarrow> (c # f) # fs))"

text \<open>
  \<^verbatim>\<open>strings.SplitN(s, sep, 2)\<close> for a separator of one byte: \<open>[s]\<close> when the
  separator does not occur in \<open>s\<close>, otherwise the text before its first occurrence and
  the text after it.
\<close>

definition SplitN2 :: "char \<Rightarrow> string \<Rightarrow> string list" where
  "SplitN2 sep s =
     (if sep \<in> set s
      then [takeWhile (\<lambda>c. c \<noteq> sep) s, tl (dropWhile (\<lambda>c. c \<noteq> sep) s)]
      else [s])"

text \<open>\<^verbatim>\<open>strings.Join(elems, sep)\<close>.\<close>

fun Join :: "string list \<Rightarrow> string \<Rightarrow> string" where
  "Join [] sep = []"
| "Join [x] sep = x"
| "Join (x # y # ys) sep = x @ sep @ Join (y # ys) sep"

subsection \<open>Package path/filepath (Unix)\<close>

text \<open>
  \<^verbatim>\<open>filepath.Clean\<close> works through the elements of the path from left to right and
  keeps a buffer of the elements written so far: an empty element and \<open>.\<close> are dropped,
  \<open>..\<close> removes the last element written when there is one to remove, is dropped at the
  root of a rooted path and is kept at the front of a relative one. \<open>clean_elems\<close> is that
  loop, with the buffer as a list of elements.
\<close>

fun clean_elems :: "bool \<Rightarrow> string list \<Rightarrow> string list \<Rightarrow> string list" where
  "clean_elems rooted out [] = out"
| "clean_elems rooted out (e # es) =
     (if e = [] \<or> e = ''.'' then clean_elems rooted out es
      else if e = ''..'' then
        (if out \<noteq> [] \<and> last out \<noteq> ''..'' then clean_elems rooted (butlast out) es
         else if \<not> rooted then clean_elems rooted (out @ [''..'']) es
         else clean_elems rooted out es)
      else clean_elems rooted (out @ [e]) es)"

definition Clean :: "string \<Rightarrow> string" where
  "Clean path =
     (if path = [] then ''.''
      else if hd path = CHR ''/'' then CHR ''/'' # Join (clean_elems True [] (Split (CHR ''/'') path)) ''/''
      else (case clean_elems False [] (Split (CHR ''/'') path) of
              [] \<Rightarrow> ''.''
            | es \<Rightarrow> Join es ''/''))"

text \<open>
  \<^verbatim>\<open>filepath.Base\<close>: the last element of the path, after trailing slashes are
  removed; \<open>.\<close> for the empty path and \<open>/\<close> for a path of slashes only.
\<close>

definition Base :: "string \<Rightarrow> string" where
  "Base path =
     (if path = [] then ''.''
      else let p = rev (dropWhile (\<lambda>c. c = CHR ''/'') (rev path));
               b = rev (takeWhile (\<lambda>c. c \<noteq> CHR ''/'') (rev p))
           in if b = [] then ''/'' else b)"

subsection \<open>Package securejoin\<close>

text \<open>
  \<^verbatim>\<open>securejoin.SecureJoin(root, unsafePath)\<close> walks the elements of \<open>unsafePath\<close> and keeps
  a buffer \<open>path\<close> of the elements accepted so far. For each element \<open>p\<close> it cleans
  \<open>/path/p\<close>; when that is the root the buffer is reset, otherwise it looks the path up
  under \<open>root\<close>, expands it when it is a symbolic link and appends \<open>p\<close> to the buffer when
  it is not (or does not exist). The result is \<open>Clean(root + Clean(/path))\<close>.

  The file system of this model has directories and regular files only (the extractor
  creates nothing else), so the lookup never finds a link and, permissions not being
  modelled either, never fails: \<open>SecureJoin\<close> does not read the file system here and
  has no failing path. The result keeps the library's type.
\<close>

function SecureJoin_loop :: "string list \<Rightarrow> string \<Rightarrow> string list" where
  "SecureJoin_loop path unsafePath =
     (if unsafePath = [] then path
      else let p = takeWhile (\<lambda>c. c \<noteq> CHR ''/'') unsafePath;
               rest = drop 1 (dropWhile (\<lambda>c. c \<noteq> CHR ''/'') unsafePath)
           in if clean_elems True [] (path @ [p]) = [] then SecureJoin_loop [] rest
              else SecureJoin_loop (path @ [p]) rest)"
  by pat_completeness auto

lemma length_drop1_dropWhile: "s \<noteq> [] \<Longrightarrow> length (dropWhile P s) - Suc 0 < length s"
proof -
  assume "s \<noteq> []"
  then have "0 < length s" by simp
  moreover have "length (dropWhile P s) \<le> length s"
    by (rule length_dropWhile_le)
  ultimately show ?thesis by arith
qed

termination SecureJoin_loop
  by (relation "measure (\<lambda>(path, u). length u)") (auto simp: length_drop1_dropWhile)

declare SecureJoin_loop.simps [simp del]

definition SecureJoin :: "string \<Rightarrow> string \<Rightarrow> error + string" where
  "SecureJoin root unsafePath =
     Inr (Clean (root @ CHR ''/'' # Join (clean_elems True [] (SecureJoin_loop [] unsafePath)) ''/''))"

subsection \<open>The file system\<close>

text \<open>
  A file system maps the absolute path of a node, as the list of its elements, to the
  node: a directory with its permission bits, or a regular file with its permission bits
  and content. The root directory always exists. Permission bits are written in decimal:
  493 is 0755, 448 is 0700, 438 is 0666, 384 is 0600 and 511 is 0777. \<open>open_files\<close> lists the descriptors
  that are open (one entry per successful open, removed by \<open>Close\<close>), \<open>umask\<close> is the
  process's file mode creation mask, \<open>cwd\<close> its working directory. Permission checks,
  full disks and concurrent changes by other processes are outside the model.
\<close>

type_synonym path = "string list"

datatype node = Dir "32 word" | File "32 word" "byte list"

text \<open>
  What a read from a stream delivers: its bytes, and the error that ends it when it does
  not end with a clean end of data.
\<close>

record reader =
  rdata :: "byte list"
  rerr :: "error option"

record world =
  nodes :: "path \<rightharpoonup> node"
  cwd :: path
  umask :: "32 word"
  open_files :: "path list"
  stdin :: reader

definition node_at :: "world \<Rightarrow> path \<Rightarrow> node option" where
  "node_at w p = (if p = [] then Some (Dir 493) else nodes w p)"

text \<open>
  The node an operating system call means by a path string: relative paths start at the
  working directory, and \<open>.\<close>, \<open>..\<close> and empty elements are resolved on the way (there
  are no links, so \<open>..\<close> is the parent of the path so far).
\<close>

definition kpath :: "world \<Rightarrow> string \<Rightarrow> path" where
  "kpath w s =
     clean_elems True [] ((if s \<noteq> [] \<and> hd s = CHR ''/'' then [] else cwd w) @ Split (CHR ''/'') s)"

text \<open>\<^verbatim>\<open>os.Stat\<close>: the node, or an error when there is none.\<close>

definition Stat :: "world \<Rightarrow> string \<Rightarrow> error + node" where
  "Stat w name =
     (if name = [] then Inl ENOENT
      else (case node_at w (kpath w name) of None \<Rightarrow> Inl ENOENT | Some n \<Rightarrow> Inr n))"

text \<open>
  \<^verbatim>\<open>mkdir(2)\<close> at a resolved path: the path must be free and its parent a
  directory; the new directory gets the permission bits less the umask.
\<close>

definition Mkdir_at :: "world \<Rightarrow> path \<Rightarrow> 32 word \<Rightarrow> world \<times> error option" where
  "Mkdir_at w p perm =
     (if node_at w p \<noteq> None then (w, Some EEXIST)
      else (case node_at w (butlast p) of
              None \<Rightarrow> (w, Some ENOENT)
            | Some (File m c) \<Rightarrow> (w, Some ENOTDIR)
            | Some (Dir m) \<Rightarrow> (w\<lparr>nodes := (nodes w)(p \<mapsto> Dir (perm AND NOT (umask w)))\<rparr>, None)))"

text \<open>
  \<^verbatim>\<open>os.MkdirAll(path, perm)\<close>: nothing to do when \<open>path\<close> is a directory, an error
  when it is a file; otherwise the parent is made first, by the same procedure, and then
  the directory itself (and a failure of the last step is forgiven when the directory is
  there after all). The recursion runs over the resolved path from its last element
  upwards, so \<open>MkdirAll_up\<close> takes the path reversed.
\<close>

fun MkdirAll_up :: "world \<Rightarrow> path \<Rightarrow> 32 word \<Rightarrow> world \<times> error option" where
  "MkdirAll_up w [] perm = (w, None)"
| "MkdirAll_up w (e # up) perm =
     (case node_at w (rev (e # up)) of
        Some (Dir m) \<Rightarrow> (w, None)
      | Some (File m c) \<Rightarrow> (w, Some ENOTDIR)
      | None \<Rightarrow>
         (case MkdirAll_up w up perm of
            (w', Some err) \<Rightarrow> (w', Some err)
          | (w', None) \<Rightarrow>
             (case Mkdir_at w' (rev (e # up)) perm of
                (w'', None) \<Rightarrow> (w'', None)
              | (w'', Some err) \<Rightarrow>
                 (case node_at w'' (rev (e # up)) of
                    Some (Dir m) \<Rightarrow> (w'', None)
                  | _ \<Rightarrow> (w'', Some err)))))"

definition MkdirAll :: "world \<Rightarrow> string \<Rightarrow> 32 word \<Rightarrow> world \<times> error option" where
  "MkdirAll w name perm =
     (if name = [] then (w, Some ENOENT) else MkdirAll_up w (rev (kpath w name)) perm)"

text \<open>
  \<^verbatim>\<open>syscallMode\<close> of package os: the nine permission bits, and the setuid, setgid and
  sticky bits (04000, 02000 and 01000, that is 2048, 1024 and 512) from where
  \<^verbatim>\<open>os.FileMode\<close> keeps them (bits 23, 22 and 20).
\<close>

definition syscallMode :: "32 word \<Rightarrow> 32 word" where
  "syscallMode i =
     (i AND 511) OR (if bit i 23 then 2048 else 0) OR (if bit i 22 then 1024 else 0)
       OR (if bit i 20 then 512 else 0)"

text \<open>
  An open file is named by the path it was opened at; it is written once, from offset 0.
  \<open>open_at\<close> is \<^verbatim>\<open>open(2)\<close> with \<^verbatim>\<open>O_CREAT|O_RDWR\<close>, and with \<^verbatim>\<open>O_TRUNC\<close> or
  \<^verbatim>\<open>O_EXCL\<close> when \<open>trunc\<close> or \<open>excl\<close> is set: an existing file is opened as it is (its
  mode and, without \<^verbatim>\<open>O_TRUNC\<close>, its content are kept), a directory cannot be opened
  for writing, and a missing file is created empty, with the permission bits less the
  umask, when its parent is a directory.
\<close>

definition open_at :: "world \<Rightarrow> path \<Rightarrow> bool \<Rightarrow> bool \<Rightarrow> 32 word \<Rightarrow> world \<times> (error + path)" where
  "open_at w p trunc excl perm =
     (case node_at w p of
        Some (Dir m) \<Rightarrow> (w, Inl EISDIR)
      | Some (File m c) \<Rightarrow>
          (if excl then (w, Inl EEXIST)
           else (w\<lparr>nodes := (nodes w)(p \<mapsto> File m (if trunc then [] else c)),
                    open_files := p # open_files w\<rparr>, Inr p))
      | None \<Rightarrow>
          (case node_at w (butlast p) of
             None \<Rightarrow> (w, Inl ENOENT)
           | Some (File m c) \<Rightarrow> (w, Inl ENOTDIR)
           | Some (Dir m) \<Rightarrow>
               (w\<lparr>nodes := (nodes w)(p \<mapsto> File (syscallMode perm AND NOT (umask w)) []),
                   open_files := p # open_files w\<rparr>, Inr p)))"

text \<open>\<^verbatim>\<open>os.OpenFile(name, os.O_CREATE|os.O_RDWR, perm)\<close>, the only flags build.go uses.\<close>

definition OpenFile :: "world \<Rightarrow> string \<Rightarrow> 32 word \<Rightarrow> world \<times> (error + path)" where
  "OpenFile w name perm =
     (if name = [] then (w, Inl ENOENT) else open_at w (kpath w name) False False perm)"

text \<open>\<^verbatim>\<open>os.Create(name)\<close> is \<^verbatim>\<open>OpenFile(name, O_RDWR|O_CREATE|O_TRUNC, 0666)\<close>.\<close>

definition Create :: "world \<Rightarrow> string \<Rightarrow> world \<times> (error + path)" where
  "Create w name =
     (if name = [] then (w, Inl ENOENT) else open_at w (kpath w name) True False 438)"

text \<open>
  Writing \<open>bs\<close> at offset 0 of an open file replaces the first \<open>length bs\<close> bytes of its
  content and keeps what lies beyond them.
\<close>

definition write_file :: "world \<Rightarrow> path \<Rightarrow> byte list \<Rightarrow> world" where
  "write_file w f bs =
     (case nodes w f of
        Some (File m c) \<Rightarrow> w\<lparr>nodes := (nodes w)(f \<mapsto> File m (bs @ drop (length bs) c))\<rparr>
      | _ \<Rightarrow> w)"

text \<open>
  \<^verbatim>\<open>io.Copy(f, src)\<close> into a file just opened: everything \<open>src\<close> delivers is written,
  and the error that ended \<open>src\<close>, if it did not end cleanly, is returned.
\<close>

definition io_Copy :: "world \<Rightarrow> path \<Rightarrow> byte list \<Rightarrow> error option \<Rightarrow> world \<times> error option" where
  "io_Copy w f bs err = (write_file w f bs, if err = Some EOF then None else err)"

definition Close :: "world \<Rightarrow> path \<Rightarrow> world" where
  "Close w f = w\<lparr>open_files := remove1 f (open_files w)\<rparr>"

text \<open>
  \<^verbatim>\<open>ioutil.TempDir("", prefix)\<close> makes a directory of mode 0700 under a name it picks
  and returns the name; \<^verbatim>\<open>ioutil.TempFile("", prefix)\<close> opens a new file of mode 0600
  under a name it picks, with \<^verbatim>\<open>O_EXCL\<close>. The name picked is an argument here.
\<close>

definition TempDir :: "world \<Rightarrow> string \<Rightarrow> world \<times> (error + string)" where
  "TempDir w name =
     (case Mkdir_at w (kpath w name) 448 of
        (w', Some err) \<Rightarrow> (w', Inl err)
      | (w', None) \<Rightarrow> (w', Inr name))"

definition TempFile :: "world \<Rightarrow> string \<Rightarrow> world \<times> (error + path)" where
  "TempFile w name = open_at w (kpath w name) False True 384"

subsection \<open>Streams, compression and tar readers\<close>

text \<open>
  \<^verbatim>\<open>io.ReadFull\<close> on a stream that is shorter than the buffer: the stream's own error,
  or \<^verbatim>\<open>io.EOF\<close> when nothing was read and \<^verbatim>\<open>io.ErrUnexpectedEOF\<close> when something was.
\<close>

definition ReadFull_err :: "reader \<Rightarrow> error" where
  "ReadFull_err r =
     (case rerr r of
        Some e \<Rightarrow> e
      | None \<Rightarrow> if rdata r = [] then EOF else ErrUnexpectedEOF)"

text \<open>
  \<^verbatim>\<open>bufio.Reader.Peek(n)\<close>: the next \<open>n\<close> bytes without consuming them; when the
  stream has fewer, what it has and the error that ended it (\<^verbatim>\<open>io.EOF\<close> at a clean end).
\<close>

definition Peek :: "reader \<Rightarrow> nat \<Rightarrow> byte list \<times> error option" where
  "Peek r n =
     (take n (rdata r),
      if n \<le> length (rdata r) then None
      else Some (case rerr r of None \<Rightarrow> EOF | Some e \<Rightarrow> e))"

text \<open>
  \<^verbatim>\<open>archive.DetectCompression\<close> of docker's package archive compares the start of the
  buffer with the magic numbers of bzip2, gzip and xz, skipping a magic number that is
  longer than the buffer.
\<close>

datatype Compression = Uncompressed | Bzip2 | Gzip | Xz

definition has_magic :: "byte list \<Rightarrow> byte list \<Rightarrow> bool" where
  "has_magic m source = (\<not> length source < length m \<and> take (length m) source = m)"

definition DetectCompression :: "byte list \<Rightarrow> Compression" where
  "DetectCompression source =
     (if has_magic [0x42, 0x5A, 0x68] source then Bzip2
      else if has_magic [0x1F, 0x8B, 0x08] source then Gzip
      else if has_magic [0xFD, 0x37, 0x7A, 0x58, 0x5A, 0x00] source then Xz
      else Uncompressed)"

text \<open>
  What \<^verbatim>\<open>tar.Reader\<close> delivers: for each call of \<^verbatim>\<open>Next\<close> that succeeds the header
  (build.go allows for a nil header), with the bytes that reading the entry to its end
  yields and the error that ends them when the entry cannot be read to its end; and
  \<open>final\<close>, the error of the first call of \<^verbatim>\<open>Next\<close> that fails, which is \<^verbatim>\<open>io.EOF\<close> at
  the regular end of the archive.
\<close>

record Header =
  Name :: string
  Typeflag :: byte
  Mode :: "64 word"

datatype tar_item = Entry (hdr: "Header option") (body: "byte list") (body_err: "error option")

record tar_reader =
  items :: "tar_item list"
  final :: error

definition TypeReg :: byte where
  "TypeReg = 0x30"

definition TypeDir :: byte where
  "TypeDir = 0x35"

subsection \<open>Package reference\<close>

text \<open>
  Modelled from the spec: the image reference library (docker/distribution/reference) is
  not under src/. The spec speaks of a registry, a repository and a tag component that
  may be left unspecified, so a parsed reference is a domain, a repository path and an
  optional tag (digests, of which the spec does not speak, are left out). \<open>TagNameOnly\<close>
  gives the default tag \<open>latest\<close> to a reference without one (build.go, line 114: "Add
  the latest tag if they did not provide one"), and \<open>named_String\<close> prints a reference
  as \<open>domain/path:tag\<close>. The parser \<^verbatim>\<open>ParseNormalizedNamed\<close> is a parameter (in
  \<open>env\<close>).
\<close>

record named =
  domain :: string
  repo :: string
  tag :: "string option"

definition TagNameOnly :: "named \<Rightarrow> named" where
  "TagNameOnly ref = (if tag ref = None then ref\<lparr>tag := Some ''latest''\<rparr> else ref)"

definition named_String :: "named \<Rightarrow> string" where
  "named_String ref =
     (if domain ref = [] then repo ref else domain ref @ ''/'' @ repo ref)
       @ (case tag ref of None \<Rightarrow> [] | Some t \<Rightarrow> '':'' @ t)"

subsection \<open>The environment\<close>

text \<open>
  The parts of the libraries and of the machine that build.go relies on and that are not
  written out:
  \<^item> \<open>gzip_rest\<close>: what \<^verbatim>\<open>gzip.NewReader\<close> does with a stream that starts with the gzip
    magic number: an error for a header it rejects, or the decompressed stream;
  \<^item> \<open>tar_read\<close>: what \<^verbatim>\<open>tar.NewReader\<close> delivers over a stream of at least one block;
  \<^item> \<open>ParseNormalizedNamed\<close>: the parser of image references;
  \<^item> \<open>DefaultString\<close>: the platform of the host (\<^verbatim>\<open>platforms.DefaultString()\<close>);
  \<^item> \<open>installRuncIfDNE\<close> and \<open>client_New\<close>: the errors, if any, of installing runc and of
    creating the client;
  \<^item> \<open>temp_dir\<close> and \<open>temp_file\<close>: the names \<^verbatim>\<open>ioutil.TempDir\<close> and
    \<^verbatim>\<open>ioutil.TempFile\<close> pick.
\<close>

record env =
  gzip_rest :: "reader \<Rightarrow> error + reader"
  tar_read :: "reader \<Rightarrow> tar_reader"
  ParseNormalizedNamed :: "string \<Rightarrow> error + named"
  DefaultString :: string
  installRuncIfDNE :: "error option"
  client_New :: "error option"
  temp_dir :: string
  temp_file :: string

text \<open>
  \<^verbatim>\<open>gzip.NewReader\<close> reads the ten bytes of the fixed header and compares the first
  three with the magic number and the deflate method (\<open>1f 8b 08\<close>) before anything else.
\<close>

definition gzip_NewReader :: "env \<Rightarrow> reader \<Rightarrow> error + reader" where
  "gzip_NewReader E r =
     (if length (rdata r) < 10 then Inl (ReadFull_err r)
      else if rdata r ! 0 \<noteq> 0x1F \<or> rdata r ! 1 \<noteq> 0x8B \<or> rdata r ! 2 \<noteq> 0x08 then Inl GzipErrHeader
      else gzip_rest E r)"

text \<open>
  \<^verbatim>\<open>tar.Reader.Next\<close> starts by reading a block of 512 bytes with \<^verbatim>\<open>io.ReadFull\<close>;
  over a shorter stream the first call fails with the error of that read.
\<close>

definition tar_NewReader :: "env \<Rightarrow> reader \<Rightarrow> tar_reader" where
  "tar_NewReader E r =
     (if length (rdata r) < 512 then \<lparr>items = [], final = ReadFull_err r\<rparr> else tar_read E r)"

subsection \<open>build.go: isArchive and untar\<close>

definition defaultDockerfileName :: string where
  "defaultDockerfileName = ''Dockerfile''"

text \<open>
  \<^verbatim>\<open>isArchive\<close> (lines 284 to 292): a compressed header is an archive; otherwise a tar
  reader over the header bytes must deliver a first entry without error.
\<close>

definition isArchive :: "env \<Rightarrow> byte list \<Rightarrow> bool" where
  "isArchive E header =
     (if DetectCompression header \<noteq> Uncompressed then True
      else (case items (tar_NewReader E \<lparr>rdata = header, rerr = None\<rparr>) of
              [] \<Rightarrow> False
            | x # xs \<Rightarrow> True))"

text \<open>
  The loop of \<^verbatim>\<open>untar\<close> (lines 303 to 348) over what the tar reader delivers. The
  result is the file system afterwards and the error returned (\<open>None\<close> for nil).
\<close>

fun untar_loop :: "string \<Rightarrow> world \<Rightarrow> tar_item list \<Rightarrow> error \<Rightarrow> world \<times> error option" where
  "untar_loop dest w [] fin = (w, if fin = EOF then None else Some fin)"
| "untar_loop dest w (it # its) fin =
     (case hdr it of
        None \<Rightarrow> untar_loop dest w its fin
      | Some header \<Rightarrow>
         (case SecureJoin dest (Name header) of
            Inl err \<Rightarrow> (w, Some err)
          | Inr target \<Rightarrow>
             if Typeflag header = TypeDir then
               (case Stat w target of
                  Inr fi \<Rightarrow> untar_loop dest w its fin
                | Inl serr \<Rightarrow>
                   (case MkdirAll w target 493 of
                      (w', Some err) \<Rightarrow> (w', Some err)
                    | (w', None) \<Rightarrow> untar_loop dest w' its fin))
             else if Typeflag header = TypeReg then
               (case OpenFile w target (ucast (Mode header)) of
                  (w', Inl err) \<Rightarrow> (w', Some err)
                | (w', Inr f) \<Rightarrow>
                   (case io_Copy w' f (body it) (body_err it) of
                      (w'', cerr) \<Rightarrow>
                        (case cerr of
                           Some err \<Rightarrow> (Close w'' f, Some err)
                         | None \<Rightarrow> untar_loop dest (Close w'' f) its fin)))
             else untar_loop dest w its fin))"

text \<open>\<^verbatim>\<open>untar\<close> (lines 295 to 349).\<close>

definition untar :: "env \<Rightarrow> string \<Rightarrow> world \<Rightarrow> reader \<Rightarrow> world \<times> error option" where
  "untar E dest w r =
     (case gzip_NewReader E r of
        Inl err \<Rightarrow> (w, Some err)
      | Inr gzr \<Rightarrow> untar_loop dest w (items (tar_NewReader E gzr)) (final (tar_NewReader E gzr)))"

subsection \<open>build.go: reading the Dockerfile and the context from stdin\<close>

text \<open>
  \<^verbatim>\<open>dockerfileFromStdin\<close> (lines 213 to 231). When \<^verbatim>\<open>ioutil.TempFile\<close> fails, line 222
  calls \<^verbatim>\<open>f.Name()\<close> on a nil file. The result is the name returned and the error.
\<close>

definition dockerfileFromStdin :: "env \<Rightarrow> world \<Rightarrow> world \<times> string \<times> error option" where
  "dockerfileFromStdin E w =
     (if rerr (stdin w) \<noteq> None \<and> rerr (stdin w) \<noteq> Some EOF then
        (w, [], Some (Errorf ''reading from stdin failed: %v'' [] (rerr (stdin w))))
      else
        (case TempFile w (temp_file E) of
           (w1, Inl err) \<Rightarrow> (w1, [], Some NilDereference)
         | (w1, Inr f) \<Rightarrow>
             (let w2 = write_file w1 f (rdata (stdin w));
                  w3 = w2\<lparr>stdin := \<lparr>rdata = [], rerr = None\<rparr>\<rparr>
              in (Close w3 f, temp_file E, None))))"

text \<open>
  \<^verbatim>\<open>contextFromStdin\<close> (lines 236 to 281). The result is the file system afterwards,
  the directory returned and the error.
\<close>

definition contextFromStdin :: "env \<Rightarrow> world \<Rightarrow> string \<Rightarrow> world \<times> string \<times> error option" where
  "contextFromStdin E w dockerfileName0 =
     (let dockerfileName = (if dockerfileName0 = [] then defaultDockerfileName else dockerfileName0) in
      case TempDir w (temp_dir E) of
        (w1, Inl err) \<Rightarrow>
          (w1, [], Some (Errorf ''unable to create temporary context directory: %v'' [] (Some err)))
      | (w1, Inr tmpDir) \<Rightarrow>
          (case Peek (stdin w1) 512 of
             (magic, perr) \<Rightarrow>
               if perr \<noteq> None \<and> perr \<noteq> Some EOF then
                 (w1, tmpDir, Some (Errorf ''failed to peek context header from STDIN: %v'' [] perr))
               else if isArchive E magic then
                 (case untar E tmpDir w1 (stdin w1) of (w2, err) \<Rightarrow> (w2, tmpDir, err))
               else if dockerfileName = ''-'' then
                 (w1, tmpDir, Some (ErrorsNew ''build context is not an archive''))
               else
                 (case SecureJoin tmpDir dockerfileName of
                    Inl err \<Rightarrow> (w1, tmpDir, Some err)
                  | Inr dockerfilePath \<Rightarrow>
                     (case Create w1 dockerfilePath of
                        (w2, Inl err) \<Rightarrow> (w2, tmpDir, Some err)
                      | (w2, Inr f) \<Rightarrow>
                         (case io_Copy w2 f (rdata (stdin w1)) (rerr (stdin w1)) of
                            (w3, err) \<Rightarrow> (Close w3 f, tmpDir, err))))))"

subsection \<open>build.go: Run, up to the frontend attributes\<close>

record buildCommand =
  buildArgs :: "string list"
  dockerfilePath :: string
  labels :: "string list"
  target :: string
  tags :: "string list"
  platforms :: "string list"
  contextDir :: string
  noConsole :: bool
  noCache :: bool

text \<open>
  The loop over the tags (lines 108 to 117): each tag is parsed, given the default tag
  when it names a repository only, and replaced by the printed reference; the first tag
  that does not parse ends \<^verbatim>\<open>Run\<close> with an error that quotes it.
\<close>

fun parseTags :: "env \<Rightarrow> string list \<Rightarrow> error + string list" where
  "parseTags E [] = Inr []"
| "parseTags E (t # ts) =
     (case ParseNormalizedNamed E t of
        Inl err \<Rightarrow> Inl (Errorf ''parsing image name %q failed: %v'' [t] (Some err))
      | Inr ref \<Rightarrow>
         (case parseTags E ts of
            Inl err \<Rightarrow> Inl err
          | Inr ts' \<Rightarrow> Inr (named_String (TagNameOnly ref) # ts')))"

text \<open>
  The two loops over the build arguments and the labels (lines 153 to 159 and 161 to
  167) differ in the key prefix and in the error message only. \<open>addAttrs\<close> is that loop.
\<close>

fun addAttrs :: "string \<Rightarrow> string \<Rightarrow> (string \<rightharpoonup> string) \<Rightarrow> string list \<Rightarrow> error + (string \<rightharpoonup> string)" where
  "addAttrs pre fmt m [] = Inr m"
| "addAttrs pre fmt m (x # xs) =
     (let kv = SplitN2 (CHR ''='') x in
      if length kv \<noteq> 2 then Inl (Errorf fmt [x] None)
      else addAttrs pre fmt (m(pre @ kv ! 0 \<mapsto> kv ! 1)) xs)"

text \<open>The frontend attributes (lines 142 to 167), from the command and the platform string.\<close>

definition frontendAttrs :: "buildCommand \<Rightarrow> string \<Rightarrow> error + (string \<rightharpoonup> string)" where
  "frontendAttrs cmd plats =
     (let m0 = [''filename'' \<mapsto> Base (dockerfilePath cmd), ''target'' \<mapsto> target cmd, ''platform'' \<mapsto> plats];
          m1 = (if noCache cmd then m0(''no-cache'' \<mapsto> []) else m0)
      in case addAttrs ''build-arg:'' ''invalid build-arg value %s'' m1 (buildArgs cmd) of
           Inl err \<Rightarrow> Inl err
         | Inr m2 \<Rightarrow> addAttrs ''label:'' ''invalid label value %s'' m2 (labels cmd))"

text \<open>
  What \<^verbatim>\<open>Run\<close> has in hand at line 168, before it starts the solve: the command with
  its fields as updated, the frontend attributes and the first tag.
\<close>

record request =
  command :: buildCommand
  attrs :: "string \<rightharpoonup> string"
  initialTag :: string

text \<open>
  The first half of \<^verbatim>\<open>Run\<close> is split in three here, in the order of the source:
  \<open>Run_stdin\<close> is lines 83 to 106 (what comes from stdin), \<open>Run_request\<close> is lines 108 to
  167, and \<open>Run\<close> starts with the checks of lines 69 to 80. The deferred removals of the
  temporary file and directory act on the file system only, which is not part of the
  result.
\<close>

definition Run_stdin :: "env \<Rightarrow> world \<Rightarrow> buildCommand \<Rightarrow> string list \<Rightarrow> error + buildCommand" where
  "Run_stdin E w cmd args =
     (let cmd1 = cmd\<lparr>contextDir := args ! 0\<rparr> in
      case (if dockerfilePath cmd1 = ''-''
            then (case dockerfileFromStdin E w of
                    (w', name, err) \<Rightarrow> (w', cmd1\<lparr>dockerfilePath := name\<rparr>, err))
            else (w, cmd1, None)) of
        (w2, cmd2, Some err) \<Rightarrow> Inl (Errorf ''reading dockerfile from stdin failed: %v'' [] (Some err))
      | (w2, cmd2, None) \<Rightarrow>
          if contextDir cmd2 = [] then
            Inl (ErrorsNew ''please specify build context (e.g. \".\" for the current directory)'')
          else
            (case (if contextDir cmd2 = ''-''
                   then (case contextFromStdin E w2 (dockerfilePath cmd2) of
                           (w', dir, err) \<Rightarrow> (w', cmd2\<lparr>contextDir := dir\<rparr>, err))
                   else (w2, cmd2, None)) of
               (w3, cmd3, Some err) \<Rightarrow> Inl (Errorf ''reading context from stdin failed: %v'' [] (Some err))
             | (w3, cmd3, None) \<Rightarrow> Inr cmd3))"

definition Run_request :: "env \<Rightarrow> buildCommand \<Rightarrow> error + request" where
  "Run_request E cmd =
     (case parseTags E (tags cmd) of
        Inl err \<Rightarrow> Inl err
      | Inr ts \<Rightarrow>
         (let cmd1 = cmd\<lparr>tags := ts\<rparr> in
          case (if dockerfilePath cmd1 = []
                then (case SecureJoin (contextDir cmd1) defaultDockerfileName of
                        Inl err \<Rightarrow> Inl err
                      | Inr p \<Rightarrow> Inr (cmd1\<lparr>dockerfilePath := p\<rparr>))
                else Inr cmd1) of
            Inl err \<Rightarrow> Inl err
          | Inr cmd2 \<Rightarrow>
             (let cmd3 = (if length (platforms cmd2) < 1
                          then cmd2\<lparr>platforms := [DefaultString E]\<rparr> else cmd2)
              in case client_New E of
                   Some err \<Rightarrow> Inl err
                 | None \<Rightarrow>
                    (case frontendAttrs cmd3 (Join (platforms cmd3) '','') of
                       Inl err \<Rightarrow> Inl err
                     | Inr m \<Rightarrow> Inr \<lparr>command = cmd3, attrs = m, initialTag = ts ! 0\<rparr>))))"

definition Run :: "env \<Rightarrow> world \<Rightarrow> buildCommand \<Rightarrow> string list \<Rightarrow> error + request" where
  "Run E w cmd args =
     (if length args < 1 then Inl (Errorf ''must pass a path to build'' [] None)
      else if length (tags cmd) < 1 then
        Inl (ErrorsNew (''please specify an image tag with '' @ [CHR 0x60] @ ''-t'' @ [CHR 0x60]))
      else (case installRuncIfDNE E of
              Some err \<Rightarrow> Inl err
            | None \<Rightarrow>
               (case Run_stdin E w cmd args of
                  Inl err \<Rightarrow> Inl err
                | Inr cmd' \<Rightarrow> Run_request E cmd')))"

subsection \<open>Notions of the specification, and an example\<close>

text \<open>
  An option \<open>key=value\<close> split at its first \<open>=\<close>, as the specification describes it, and
  the options that have no \<open>=\<close>.
\<close>

definition key_value :: "string \<Rightarrow> string \<times> string" where
  "key_value x = (takeWhile (\<lambda>c. c \<noteq> CHR ''='') x, tl (dropWhile (\<lambda>c. c \<noteq> CHR ''='') x))"

definition no_eq :: "string \<Rightarrow> bool" where
  "no_eq x = (CHR ''='' \<notin> set x)"


text \<open>
  An environment, a file system and a command for the examples: \<^verbatim>\<open>img build -t myapp
  --build-arg FOO=bar --label color=red .\<close> on a machine where runc is installed, the
  client can be created and \<open>/tmp\<close> exists. The parser of the example knows the
  reference \<open>myapp\<close> only, and its decoders reject what they are given.
\<close>

definition env_example :: env where
  "env_example =
     \<lparr>gzip_rest = (\<lambda>r. Inl ErrUnexpectedEOF),
      tar_read = (\<lambda>r. \<lparr>items = [], final = LibError ''archive/tar: invalid tar header''\<rparr>),
      ParseNormalizedNamed =
        (\<lambda>s. if s = ''myapp'' then Inr \<lparr>domain = ''docker.io'', repo = ''library/myapp'', tag = None\<rparr>
             else Inl (LibError ''invalid reference format'')),
      DefaultString = ''linux/amd64'',
      installRuncIfDNE = None,
      client_New = None,
      temp_dir = ''/tmp/img-build-context-1'',
      temp_file = ''/tmp/img-build-dockerfile-1''\<rparr>"

definition world_example :: world where
  "world_example =
     \<lparr>nodes = [[''tmp''] \<mapsto> Dir 1023], cwd = [], umask = 18, open_files = [],
      stdin = \<lparr>rdata = [], rerr = None\<rparr>\<rparr>"

definition cmd_example :: buildCommand where
  "cmd_example =
     \<lparr>buildArgs = [''FOO=bar''], dockerfilePath = [], labels = [''color=red''], target = [],
      tags = [''myapp''], platforms = [], contextDir = [], noConsole = False, noCache = False\<rparr>"


section \<open>Properties\<close>

subsection \<open>Splitting options and building the attribute map\<close>

lemma length_SplitN2: "length (SplitN2 c s) = 2 \<longleftrightarrow> c \<in> set s"
  by (simp add: SplitN2_def)

lemma SplitN2_parts: "c \<in> set s \<Longrightarrow> s = SplitN2 c s ! 0 @ c # SplitN2 c s ! 1"
proof -
  assume a: "c \<in> set s"
  then have "dropWhile (\<lambda>x. x \<noteq> c) s \<noteq> []" by (simp add: dropWhile_eq_Nil_conv)
  moreover have "hd (dropWhile (\<lambda>x. x \<noteq> c) s) = c"
    using hd_dropWhile[of "\<lambda>x. x \<noteq> c" s] calculation by simp
  ultimately have "dropWhile (\<lambda>x. x \<noteq> c) s = c # tl (dropWhile (\<lambda>x. x \<noteq> c) s)"
    by (cases "dropWhile (\<lambda>x. x \<noteq> c) s") auto
  then have "s = takeWhile (\<lambda>x. x \<noteq> c) s @ c # tl (dropWhile (\<lambda>x. x \<noteq> c) s)"
    by (metis takeWhile_dropWhile_id)
  then show ?thesis using a by (simp add: SplitN2_def)
qed

lemma map_of_prefixed:
  "map_of (map (\<lambda>x. (pre @ fst (f x), snd (f x))) xs) (pre @ k) = map_of (map f xs) k"
  by (induction xs) auto

lemma map_of_prefixed_other:
  "\<forall>k. key \<noteq> pre @ k \<Longrightarrow> map_of (map (\<lambda>x. (pre @ fst (f x), snd (f x))) xs) key = None"
  by (induction xs) auto

lemma addAttrs_Inr:
  "addAttrs pre fmt m xs = Inr m' \<Longrightarrow>
     (\<forall>x\<in>set xs. CHR ''='' \<in> set x) \<and>
     m' = m ++ map_of (rev (map (\<lambda>x. (pre @ fst (key_value x), snd (key_value x))) xs))"
proof (induction xs arbitrary: m)
  case Nil
  then show ?case by simp
next
  case (Cons x xs)
  from Cons.prems have two: "length (SplitN2 (CHR ''='') x) = 2"
    by (auto simp: Let_def split: if_splits)
  then have eq: "CHR ''='' \<in> set x" by (simp add: length_SplitN2)
  have kv: "SplitN2 (CHR ''='') x = [fst (key_value x), snd (key_value x)]"
    using eq by (simp add: SplitN2_def key_value_def)
  from Cons.prems two have "addAttrs pre fmt (m(pre @ fst (key_value x) \<mapsto> snd (key_value x))) xs = Inr m'"
    by (simp add: Let_def kv)
  from Cons.IH[OF this] have all: "\<forall>x\<in>set xs. CHR ''='' \<in> set x"
    and m': "m' = m(pre @ fst (key_value x) \<mapsto> snd (key_value x))
               ++ map_of (rev (map (\<lambda>x. (pre @ fst (key_value x), snd (key_value x))) xs))"
    by blast+
  have "m(pre @ fst (key_value x) \<mapsto> snd (key_value x)) = m ++ map_of [(pre @ fst (key_value x), snd (key_value x))]"
    by simp
  then have "m' = m ++ map_of (rev (map (\<lambda>x. (pre @ fst (key_value x), snd (key_value x))) (x # xs)))"
    unfolding m' by (simp only: rev.simps list.map map_of_append map_add_assoc)
  with all eq show ?case by simp
qed

lemma addAttrs_Inl:
  "find no_eq xs = Some x \<Longrightarrow> addAttrs pre fmt m xs = Inl (Errorf fmt [x] None)"
proof (induction xs arbitrary: m)
  case Nil
  then show ?case by simp
next
  case (Cons y ys)
  then show ?case
    by (auto simp: Let_def no_eq_def length_SplitN2 split: if_splits)
qed

lemma addAttrs_total:
  "find no_eq xs = None \<Longrightarrow> \<exists>m'. addAttrs pre fmt m xs = Inr m'"
proof (induction xs arbitrary: m)
  case Nil
  then show ?case by simp
next
  case (Cons y ys)
  then show ?case
    by (auto simp: Let_def no_eq_def length_SplitN2 split: if_splits)
qed


lemma frontendAttrs_Inr:
  assumes "frontendAttrs cmd p = Inr m"
  shows "(\<forall>x\<in>set (buildArgs cmd) \<union> set (labels cmd). CHR ''='' \<in> set x)"
    and "m (''build-arg:'' @ k) = map_of (rev (map key_value (buildArgs cmd))) k"
    and "m (''label:'' @ k) = map_of (rev (map key_value (labels cmd))) k"
    and "m ''filename'' = Some (Base (dockerfilePath cmd))"
    and "m ''target'' = Some (target cmd)"
    and "m ''platform'' = Some p"
    and "m ''no-cache'' = (if noCache cmd then Some [] else None)"
proof -
  define m1 where "m1 = (if noCache cmd
     then [''filename'' \<mapsto> Base (dockerfilePath cmd), ''target'' \<mapsto> target cmd, ''platform'' \<mapsto> p, ''no-cache'' \<mapsto> []]
     else [''filename'' \<mapsto> Base (dockerfilePath cmd), ''target'' \<mapsto> target cmd, ''platform'' \<mapsto> p])"
  from assms obtain m2 where
    a: "addAttrs ''build-arg:'' ''invalid build-arg value %s'' m1 (buildArgs cmd) = Inr m2" and
    b: "addAttrs ''label:'' ''invalid label value %s'' m2 (labels cmd) = Inr m"
    unfolding frontendAttrs_def Let_def m1_def by (auto split: sum.splits)
  note A = addAttrs_Inr[OF a] and B = addAttrs_Inr[OF b]
  have m: "m = (m1 ++ map_of (rev (map (\<lambda>x. (''build-arg:'' @ fst (key_value x), snd (key_value x))) (buildArgs cmd))))
             ++ map_of (rev (map (\<lambda>x. (''label:'' @ fst (key_value x), snd (key_value x))) (labels cmd)))"
    using A B by simp
  show "(\<forall>x\<in>set (buildArgs cmd) \<union> set (labels cmd). CHR ''='' \<in> set x)"
    using A B by auto
  have other: "map_of (rev (map (\<lambda>x. (pre @ fst (key_value x), snd (key_value x))) xs)) key = None"
    if "\<forall>k. key \<noteq> pre @ k" for pre key and xs :: "string list"
    using map_of_prefixed_other[OF that, of key_value "rev xs"] by (simp add: rev_map)
  have same: "map_of (rev (map (\<lambda>x. (pre @ fst (key_value x), snd (key_value x))) xs)) (pre @ k) = map_of (rev (map key_value xs)) k"
    for pre k and xs :: "string list"
    using map_of_prefixed[of pre key_value "rev xs" k] by (simp add: rev_map)
  let ?A = "map_of (rev (map (\<lambda>x. (''build-arg:'' @ fst (key_value x), snd (key_value x))) (buildArgs cmd)))"
  let ?B = "map_of (rev (map (\<lambda>x. (''label:'' @ fst (key_value x), snd (key_value x))) (labels cmd)))"
  have look: "m key = (case ?B key of Some v \<Rightarrow> Some v | None \<Rightarrow> (case ?A key of Some v \<Rightarrow> Some v | None \<Rightarrow> m1 key))" for key
    unfolding m map_add_def by (simp split: option.splits)
  have A_none: "?A key = None" if "\<forall>k. key \<noteq> ''build-arg:'' @ k" for key
    using that by (rule other)
  have B_none: "?B key = None" if "\<forall>k. key \<noteq> ''label:'' @ k" for key
    using that by (rule other)
  have "?B (''build-arg:'' @ k) = None" by (rule B_none) simp
  moreover have "?A (''build-arg:'' @ k) = map_of (rev (map key_value (buildArgs cmd))) k" by (rule same)
  moreover have "m1 (''build-arg:'' @ k) = None" by (simp add: m1_def)
  ultimately show "m (''build-arg:'' @ k) = map_of (rev (map key_value (buildArgs cmd))) k"
    unfolding look by (simp only: option.case split: option.splits) simp
  have "?B (''label:'' @ k) = map_of (rev (map key_value (labels cmd))) k" by (rule same)
  moreover have "?A (''label:'' @ k) = None" by (rule A_none) simp
  moreover have "m1 (''label:'' @ k) = None" by (simp add: m1_def)
  ultimately show "m (''label:'' @ k) = map_of (rev (map key_value (labels cmd))) k"
    unfolding look by (simp only: option.case split: option.splits) simp
  have "?B ''filename'' = None" "?A ''filename'' = None" by (rule B_none, simp, rule A_none, simp)
  then show "m ''filename'' = Some (Base (dockerfilePath cmd))"
    unfolding look by (simp add: m1_def)
  have "?B ''target'' = None" "?A ''target'' = None" by (rule B_none, simp, rule A_none, simp)
  then show "m ''target'' = Some (target cmd)"
    unfolding look by (simp add: m1_def)
  have "?B ''platform'' = None" "?A ''platform'' = None" by (rule B_none, simp, rule A_none, simp)
  then show "m ''platform'' = Some p"
    unfolding look by (simp add: m1_def)
  have "?B ''no-cache'' = None" "?A ''no-cache'' = None" by (rule B_none, simp, rule A_none, simp)
  then show "m ''no-cache'' = (if noCache cmd then Some [] else None)"
    unfolding look by (simp add: m1_def)
qed

lemma Run_stdin_keeps:
  "Run_stdin E w cmd args = Inr cmd' \<Longrightarrow>
     buildArgs cmd' = buildArgs cmd \<and> labels cmd' = labels cmd \<and> target cmd' = target cmd \<and>
     noCache cmd' = noCache cmd \<and> tags cmd' = tags cmd \<and> platforms cmd' = platforms cmd"
  unfolding Run_stdin_def Let_def
  by (auto split: if_splits prod.splits option.splits)

lemma Run_request_Inr:
  "Run_request E cmd = Inr rq \<Longrightarrow>
     frontendAttrs (command rq) (Join (platforms (command rq)) '','') = Inr (attrs rq) \<and>
     buildArgs (command rq) = buildArgs cmd \<and> labels (command rq) = labels cmd \<and>
     target (command rq) = target cmd \<and> noCache (command rq) = noCache cmd \<and>
     parseTags E (tags cmd) = Inr (tags (command rq)) \<and> initialTag rq = tags (command rq) ! 0"
  unfolding Run_request_def Let_def
  by (auto split: if_splits sum.splits option.splits)

lemma Run_Inr:
  assumes "Run E w cmd args = Inr rq"
  shows "frontendAttrs (command rq) (Join (platforms (command rq)) '','') = Inr (attrs rq)"
    and "buildArgs (command rq) = buildArgs cmd" and "labels (command rq) = labels cmd"
    and "target (command rq) = target cmd" and "noCache (command rq) = noCache cmd"
    and "parseTags E (tags cmd) = Inr (tags (command rq))"
    and "initialTag rq = tags (command rq) ! 0"
    and "tags cmd \<noteq> []" and "args \<noteq> []"
proof -
  from assms obtain cmd' where s: "Run_stdin E w cmd args = Inr cmd'" and r: "Run_request E cmd' = Inr rq"
    and t: "tags cmd \<noteq> []" "args \<noteq> []"
    unfolding Run_def by (auto split: if_splits option.splits sum.splits)
  note k = Run_stdin_keeps[OF s] and q = Run_request_Inr[OF r]
  show "frontendAttrs (command rq) (Join (platforms (command rq)) '','') = Inr (attrs rq)"
    using q by simp
  show "buildArgs (command rq) = buildArgs cmd" "labels (command rq) = labels cmd"
    "target (command rq) = target cmd" "noCache (command rq) = noCache cmd"
    "parseTags E (tags cmd) = Inr (tags (command rq))" "initialTag rq = tags (command rq) ! 0"
    using k q by simp_all
  show "tags cmd \<noteq> []" "args \<noteq> []" by (rule t)+
qed

lemma parseTags_Inr:
  "parseTags E ts = Inr ts' \<Longrightarrow>
     length ts' = length ts \<and>
     (\<forall>i<length ts. \<exists>ref. ParseNormalizedNamed E (ts ! i) = Inr ref \<and> ts' ! i = named_String (TagNameOnly ref))"
proof (induction ts arbitrary: ts')
  case Nil
  then show ?case by simp
next
  case (Cons t ts)
  from Cons.prems obtain ref ts0 where p: "ParseNormalizedNamed E t = Inr ref" and r: "parseTags E ts = Inr ts0"
    and e: "ts' = named_String (TagNameOnly ref) # ts0"
    by (auto split: sum.splits)
  from Cons.IH[OF r] p e show ?case
    by (auto simp: nth_Cons split: nat.splits)
qed

text \<open>
  Claim C9. Every build argument and every label is split at its first \<open>=\<close>: when \<^verbatim>\<open>Run\<close>
  gets as far as the solve, every such option has an \<open>=\<close>, and the attribute map holds
  under \<open>build-arg:k\<close> (under \<open>label:k\<close>) the value of the last build argument (label) with
  the key \<open>k\<close> and nothing when there is none, so that it has no other key with these
  prefixes. The first build argument without \<open>=\<close>, and when there is none the first such
  label, makes building the attributes fail with an error that names it.
\<close>

theorem build_args_and_labels_split:
  "(Run E w cmd args = Inr rq \<longrightarrow>
      (\<forall>x\<in>set (buildArgs cmd) \<union> set (labels cmd). CHR ''='' \<in> set x) \<and>
      (\<forall>k. attrs rq (''build-arg:'' @ k) = map_of (rev (map key_value (buildArgs cmd))) k) \<and>
      (\<forall>k. attrs rq (''label:'' @ k) = map_of (rev (map key_value (labels cmd))) k)) \<and>
   (find no_eq (buildArgs cmd) = Some x \<longrightarrow>
      frontendAttrs cmd p = Inl (Errorf ''invalid build-arg value %s'' [x] None)) \<and>
   (find no_eq (buildArgs cmd) = None \<longrightarrow> find no_eq (labels cmd) = Some x \<longrightarrow>
      frontendAttrs cmd p = Inl (Errorf ''invalid label value %s'' [x] None))"
proof (intro conjI impI)
  assume run: "Run E w cmd args = Inr rq"
  note r = Run_Inr[OF run]
  note f = frontendAttrs_Inr[OF r(1)]
  show "\<forall>x\<in>set (buildArgs cmd) \<union> set (labels cmd). CHR ''='' \<in> set x"
    using f(1) r(2,3) by simp
  show "\<forall>k. attrs rq (''build-arg:'' @ k) = map_of (rev (map key_value (buildArgs cmd))) k"
    using f(2) r(2) by simp
  show "\<forall>k. attrs rq (''label:'' @ k) = map_of (rev (map key_value (labels cmd))) k"
    using f(3) r(3) by simp
next
  assume "find no_eq (buildArgs cmd) = Some x"
  then show "frontendAttrs cmd p = Inl (Errorf ''invalid build-arg value %s'' [x] None)"
    by (simp add: frontendAttrs_def Let_def addAttrs_Inl)
next
  assume a: "find no_eq (buildArgs cmd) = None" and b: "find no_eq (labels cmd) = Some x"
  let ?m1 = "if noCache cmd
     then [''filename'' \<mapsto> Base (dockerfilePath cmd), ''target'' \<mapsto> target cmd, ''platform'' \<mapsto> p, ''no-cache'' \<mapsto> []]
     else [''filename'' \<mapsto> Base (dockerfilePath cmd), ''target'' \<mapsto> target cmd, ''platform'' \<mapsto> p]"
  from addAttrs_total[OF a] obtain m2 where
    "addAttrs ''build-arg:'' ''invalid build-arg value %s'' ?m1 (buildArgs cmd) = Inr m2"
    by blast
  then show "frontendAttrs cmd p = Inl (Errorf ''invalid label value %s'' [x] None)"
    unfolding frontendAttrs_def Let_def using addAttrs_Inl[OF b] by simp
qed

theorem build_args_and_labels_split_witness:
  "attrs (projr (Run env_example world_example cmd_example [''.''])) ''build-arg:FOO'' = Some ''bar'' \<and>
   attrs (projr (Run env_example world_example cmd_example [''.''])) ''label:color'' = Some ''red'' \<and>
   attrs (projr (Run env_example world_example cmd_example [''.''])) ''build-arg:color'' = None \<and>
   attrs (projr (Run env_example world_example cmd_example [''.''])) ''label:FOO'' = None \<and>
   find no_eq [''FOO''] = Some ''FOO'' \<and>
   frontendAttrs (cmd_example\<lparr>buildArgs := [''FOO'']\<rparr>) ''linux/amd64'' =
     Inl (Errorf ''invalid build-arg value %s'' [''FOO''] None) \<and>
   find no_eq [''FOO=bar''] = None \<and> find no_eq [''color''] = Some ''color'' \<and>
   frontendAttrs (cmd_example\<lparr>labels := [''color'']\<rparr>) ''linux/amd64'' =
     Inl (Errorf ''invalid label value %s'' [''color''] None)"
proof -
  let ?r = "Run env_example world_example cmd_example [''.'']"
  have "\<not> isl ?r" by code_simp
  then have run: "?r = Inr (projr ?r)" by (cases ?r) simp_all
  have ba: "buildArgs cmd_example = [''FOO=bar'']" and la: "labels cmd_example = [''color=red'']"
    by (simp_all add: cmd_example_def)
  have kv: "key_value ''FOO=bar'' = (''FOO'', ''bar'')" "key_value ''color=red'' = (''color'', ''red'')"
    by (simp_all add: key_value_def)
  have n1: "find no_eq [''FOO''] = Some ''FOO''" and n2: "find no_eq [''FOO=bar''] = None"
    and n3: "find no_eq [''color''] = Some ''color''"
    by (simp_all add: no_eq_def)
  note t = build_args_and_labels_split[of env_example world_example cmd_example "[''.'']" "projr ?r"]
  from t run have a: "attrs (projr ?r) (''build-arg:'' @ k) = map_of (rev (map key_value (buildArgs cmd_example))) k"
    and b: "attrs (projr ?r) (''label:'' @ k) = map_of (rev (map key_value (labels cmd_example))) k" for k
    by blast+
  have 1: "attrs (projr ?r) ''build-arg:FOO'' = Some ''bar''" using a[of "''FOO''"] by (simp add: ba kv)
  have 2: "attrs (projr ?r) ''label:color'' = Some ''red''" using b[of "''color''"] by (simp add: la kv)
  have 3: "attrs (projr ?r) ''build-arg:color'' = None" using a[of "''color''"] by (simp add: ba kv)
  have 4: "attrs (projr ?r) ''label:FOO'' = None" using b[of "''FOO''"] by (simp add: la kv)
  have 5: "frontendAttrs (cmd_example\<lparr>buildArgs := [''FOO'']\<rparr>) ''linux/amd64'' =
     Inl (Errorf ''invalid build-arg value %s'' [''FOO''] None)"
    using build_args_and_labels_split[of env_example world_example "cmd_example\<lparr>buildArgs := [''FOO'']\<rparr>" "[]" undefined "''FOO''" "''linux/amd64''"] n1
    by simp
  have 6: "frontendAttrs (cmd_example\<lparr>labels := [''color'']\<rparr>) ''linux/amd64'' =
     Inl (Errorf ''invalid label value %s'' [''color''] None)"
    using build_args_and_labels_split[of env_example world_example "cmd_example\<lparr>labels := [''color'']\<rparr>" "[]" undefined "''color''" "''linux/amd64''"] n2 n3
    by (simp add: ba)
  from 1 2 3 4 5 6 n1 n2 n3 show ?thesis by blast
qed

text \<open>
  Claim C5, as the code has it. The attribute map always holds \<open>filename\<close>, \<open>target\<close> and
  \<open>platform\<close>; \<open>target\<close> holds the target of the command, the empty string when none was
  given (it is not left out); and \<open>no-cache\<close> is present, with the empty string, exactly
  when caching is disabled.
\<close>

theorem attrs_target_always_present:
  "Run E w cmd args = Inr rq \<Longrightarrow>
     attrs rq ''target'' = Some (target cmd) \<and>
     attrs rq ''filename'' = Some (Base (dockerfilePath (command rq))) \<and>
     attrs rq ''platform'' = Some (Join (platforms (command rq)) '','') \<and>
     attrs rq ''no-cache'' = (if noCache cmd then Some [] else None)"
proof -
  assume run: "Run E w cmd args = Inr rq"
  note r = Run_Inr[OF run]
  note f = frontendAttrs_Inr[OF r(1)]
  show ?thesis using f(4-7) r(4,5) by simp
qed

theorem attrs_target_always_present_witness:
  "Run env_example world_example cmd_example [''.''] =
     Inr (projr (Run env_example world_example cmd_example [''.''])) \<and>
   attrs (projr (Run env_example world_example cmd_example [''.''])) ''target'' = Some [] \<and>
   attrs (projr (Run env_example world_example cmd_example [''.''])) ''filename'' = Some ''Dockerfile'' \<and>
   attrs (projr (Run env_example world_example cmd_example [''.''])) ''platform'' = Some ''linux/amd64'' \<and>
   attrs (projr (Run env_example world_example cmd_example [''.''])) ''no-cache'' = None"
proof -
  let ?r = "Run env_example world_example cmd_example [''.'']"
  have "\<not> isl ?r" by code_simp
  then have run: "?r = Inr (projr ?r)" by (cases ?r) simp_all
  have c: "command (projr ?r) = \<lparr>buildArgs = [''FOO=bar''], dockerfilePath = ''Dockerfile'',
    labels = [''color=red''], target = [], tags = [''docker.io/library/myapp:latest''],
    platforms = [''linux/amd64''], contextDir = ''.'', noConsole = False, noCache = False\<rparr>"
    by code_simp
  have b: "Base ''Dockerfile'' = ''Dockerfile''" by (simp add: Base_def)
  from attrs_target_always_present[OF run] run show ?thesis
    by (simp add: c b) (simp add: cmd_example_def)
qed

text \<open>
  Claim C5 as stated fails: for the command of the example, which names no target, the
  attribute map has the key \<open>target\<close>, with the empty string.
\<close>

theorem absent_target_counterexample:
  "\<not> isl (Run env_example world_example cmd_example [''.'']) \<and>
   target cmd_example = [] \<and>
   attrs (projr (Run env_example world_example cmd_example [''.''])) ''target'' = Some []"
  by code_simp

subsection \<open>Tags\<close>

text \<open>
  Claim C10. Without a tag \<^verbatim>\<open>Run\<close> returns an error (the one of line 74 when a path was
  passed). When \<^verbatim>\<open>Run\<close> gets as far as the solve, every tag has been parsed and replaced
  by the printed reference with the default tag added where the tag was left out, and
  the first of them is the tag that is reported; a reference without a tag is printed
  with \<open>:latest\<close> appended, and one with a tag is left as it is.
\<close>

theorem tags_required_and_normalized:
  "(tags cmd = [] \<longrightarrow> (\<exists>err. Run E w cmd args = Inl err)) \<and>
   (tags cmd = [] \<longrightarrow> args \<noteq> [] \<longrightarrow>
      Run E w cmd args =
        Inl (ErrorsNew (''please specify an image tag with '' @ [CHR 0x60] @ ''-t'' @ [CHR 0x60]))) \<and>
   (Run E w cmd args = Inr rq \<longrightarrow>
      length (tags (command rq)) = length (tags cmd) \<and>
      initialTag rq = tags (command rq) ! 0 \<and>
      (\<forall>i<length (tags cmd). \<exists>ref.
          ParseNormalizedNamed E (tags cmd ! i) = Inr ref \<and>
          tags (command rq) ! i = named_String (TagNameOnly ref))) \<and>
   (tag ref = None \<longrightarrow> named_String (TagNameOnly ref) = named_String ref @ '':latest'') \<and>
   (tag ref \<noteq> None \<longrightarrow> TagNameOnly ref = ref)"
proof (intro conjI impI)
  assume "tags cmd = []"
  then show "\<exists>err. Run E w cmd args = Inl err"
    by (simp add: Run_def)
next
  assume "tags cmd = []" and "args \<noteq> []"
  then show "Run E w cmd args =
      Inl (ErrorsNew (''please specify an image tag with '' @ [CHR 0x60] @ ''-t'' @ [CHR 0x60]))"
    by (simp add: Run_def)
next
  assume run: "Run E w cmd args = Inr rq"
  note r = Run_Inr[OF run]
  note p = parseTags_Inr[OF r(6)]
  show "length (tags (command rq)) = length (tags cmd)" using p by simp
  show "initialTag rq = tags (command rq) ! 0" by (rule r(7))
  show "\<forall>i<length (tags cmd). \<exists>ref.
          ParseNormalizedNamed E (tags cmd ! i) = Inr ref \<and>
          tags (command rq) ! i = named_String (TagNameOnly ref)"
    using p by simp
next
  assume "tag ref = None"
  then show "named_String (TagNameOnly ref) = named_String ref @ '':latest''"
    by (simp add: TagNameOnly_def named_String_def)
next
  assume "tag ref \<noteq> None"
  then show "TagNameOnly ref = ref"
    by (simp add: TagNameOnly_def)
qed

theorem tags_required_and_normalized_witness:
  "tags (cmd_example\<lparr>tags := []\<rparr>) = [] \<and>
   Run env_example world_example (cmd_example\<lparr>tags := []\<rparr>) [''.''] =
     Inl (ErrorsNew (''please specify an image tag with '' @ [CHR 0x60] @ ''-t'' @ [CHR 0x60])) \<and>
   Run env_example world_example cmd_example [''.''] =
     Inr (projr (Run env_example world_example cmd_example [''.''])) \<and>
   tags cmd_example = [''myapp''] \<and>
   initialTag (projr (Run env_example world_example cmd_example [''.''])) =
     ''docker.io/library/myapp:latest'' \<and>
   tag \<lparr>domain = ''docker.io'', repo = ''library/myapp'', tag = None\<rparr> = None \<and>
   named_String (TagNameOnly \<lparr>domain = ''docker.io'', repo = ''library/myapp'', tag = None\<rparr>) =
     ''docker.io/library/myapp:latest'' \<and>
   TagNameOnly \<lparr>domain = ''docker.io'', repo = ''library/myapp'', tag = Some ''v1''\<rparr> =
     \<lparr>domain = ''docker.io'', repo = ''library/myapp'', tag = Some ''v1''\<rparr>"
proof -
  let ?r = "Run env_example world_example cmd_example [''.'']"
  let ?ref = "\<lparr>domain = ''docker.io'', repo = ''library/myapp'', tag = None\<rparr>"
  let ?v1 = "\<lparr>domain = ''docker.io'', repo = ''library/myapp'', tag = Some ''v1''\<rparr>"
  have "\<not> isl ?r" by code_simp
  then have run: "?r = Inr (projr ?r)" by (cases ?r) simp_all
  have t: "tags cmd_example = [''myapp'']" by (simp add: cmd_example_def)
  have pn: "ParseNormalizedNamed env_example ''myapp'' = Inr ?ref" by (simp add: env_example_def)
  have pr: "named_String ?ref = ''docker.io/library/myapp''" by (simp add: named_String_def)
  note a = tags_required_and_normalized[of "cmd_example\<lparr>tags := []\<rparr>" env_example world_example
      "[''.'']" undefined ?ref]
  note b = tags_required_and_normalized[of cmd_example env_example world_example "[''.'']" "projr ?r" ?v1]
  from a have 1: "Run env_example world_example (cmd_example\<lparr>tags := []\<rparr>) [''.''] =
     Inl (ErrorsNew (''please specify an image tag with '' @ [CHR 0x60] @ ''-t'' @ [CHR 0x60]))"
    by simp
  from a pr have 2: "named_String (TagNameOnly ?ref) = ''docker.io/library/myapp:latest''"
    by simp
  from b run have i: "initialTag (projr ?r) = tags (command (projr ?r)) ! 0"
    and "\<forall>i<length (tags cmd_example). \<exists>ref.
          ParseNormalizedNamed env_example (tags cmd_example ! i) = Inr ref \<and>
          tags (command (projr ?r)) ! i = named_String (TagNameOnly ref)"
    by blast+
  then have "tags (command (projr ?r)) ! 0 = named_String (TagNameOnly ?ref)"
    by (simp add: t pn)
  with i 2 have 3: "initialTag (projr ?r) = ''docker.io/library/myapp:latest''" by simp
  from b have 4: "TagNameOnly ?v1 = ?v1" by simp
  from 1 2 3 4 run t show ?thesis by simp
qed

subsection \<open>The archive classifier\<close>

text \<open>
  Claim C6. For a header shorter than 512 bytes \<^verbatim>\<open>isArchive\<close> answers from the bytes it
  has: the tar reader's short read is an error that makes the answer "no", so the answer
  is whether the bytes start with a compression magic number; the empty header is not an
  archive. \<^verbatim>\<open>contextFromStdin\<close> gets such a header from \<^verbatim>\<open>Peek\<close> together with
  \<^verbatim>\<open>io.EOF\<close>, which line 254 lets pass.
\<close>

theorem isArchive_short_header:
  "(length header < 512 \<longrightarrow> isArchive E header = (DetectCompression header \<noteq> Uncompressed)) \<and>
   isArchive E [] = False \<and>
   (length (rdata r) < 512 \<longrightarrow> rerr r = None \<longrightarrow> Peek r 512 = (rdata r, Some EOF))"
  by (simp add: isArchive_def tar_NewReader_def DetectCompression_def has_magic_def Peek_def)

theorem isArchive_short_header_witness:
  "length [0x46, 0x52, 0x4F, 0x4D :: byte] < 512 \<and>
   isArchive env_example [0x46, 0x52, 0x4F, 0x4D] = False \<and>
   length [0x1F, 0x8B, 0x08 :: byte] < 512 \<and>
   isArchive env_example [0x1F, 0x8B, 0x08] = True \<and>
   isArchive env_example [] = False \<and>
   Peek \<lparr>rdata = [0x46, 0x52, 0x4F, 0x4D], rerr = None\<rparr> 512 = ([0x46, 0x52, 0x4F, 0x4D], Some EOF)"
proof -
  have 1: "DetectCompression [0x46, 0x52, 0x4F, 0x4D] = Uncompressed"
    and 2: "DetectCompression [0x1F, 0x8B, 0x08] = Gzip"
    by (simp_all add: DetectCompression_def has_magic_def)
  note a = isArchive_short_header[of "[0x46, 0x52, 0x4F, 0x4D]" env_example
      "\<lparr>rdata = [0x46, 0x52, 0x4F, 0x4D], rerr = None\<rparr>"]
  note b = isArchive_short_header[of "[0x1F, 0x8B, 0x08]" env_example
      "\<lparr>rdata = [0x46, 0x52, 0x4F, 0x4D], rerr = None\<rparr>"]
  from a 1 have "isArchive env_example [0x46, 0x52, 0x4F, 0x4D] = False"
    and "isArchive env_example [] = False"
    and "Peek \<lparr>rdata = [0x46, 0x52, 0x4F, 0x4D], rerr = None\<rparr> 512 = ([0x46, 0x52, 0x4F, 0x4D], Some EOF)"
    by simp_all
  moreover from b 2 have "isArchive env_example [0x1F, 0x8B, 0x08] = True"
    by simp
  ultimately show ?thesis by simp
qed

end
